theory Spec2Isabelle
  imports Complex_Main "HOL-Library.Multiset" "HOL-Library.Product_Lexorder" "HOL-Library.AList"
begin

section \<open>Data model of the tracker document\<close>

text \<open>
  The tracker keeps one JSON document (\<^verbatim>\<open>self.data\<close>) of nested dictionaries. The
  dictionaries the program writes have a fixed set of keys, so each becomes a record; a
  key the code reads with \<^verbatim>\<open>.get(key, default)\<close> or tests with \<^verbatim>\<open>key in d\<close> is an
  optional field (\<open>None\<close>: the key is absent). Dictionaries with keys chosen at run time
  (the meal buckets, the logs by date, the micros of an entry) are association lists in
  insertion order.

  Numbers are Python ints and floats; both are modelled as exact rationals, so the
  rounding of floating-point arithmetic is not part of the model. Calendar dates are
  day ordinals (\<^verbatim>\<open>date.toordinal()\<close>): ISO date strings order and compare as the
  ordinals do. Instants are seconds since the epoch (\<^verbatim>\<open>datetime.timestamp()\<close>).

  A daily log always has its \<^verbatim>\<open>meals\<close> key (the report and the streaks read it
  without a default), so a log that exists is never an empty, falsy dictionary. The
  workouts and the notes of a day, which none of the functions below reads, are left out.

  \<^verbatim>\<open>dict.copy()\<close> is a shallow copy: the \<^verbatim>\<open>micros\<close> dictionary of a food entry is an
  object shared between an entry and its copies. An entry therefore holds the address of
  its micros dictionary, and the dictionaries live in a store.
\<close>

type_synonym date = int
type_synonym addr = nat
type_synonym micros_dict = "(string \<times> rat) list"
type_synonym store = "addr \<Rightarrow> micros_dict"

datatype py_error = ZeroDivisionError | StatisticsError

record food_entry =
  name :: string
  serving_size_g :: "rat option"
  grams :: "rat option"
  calories :: "rat option"
  protein_g :: "rat option"
  carbs_g :: "rat option"
  fats_g :: "rat option"
  micros :: "addr option"

record daily_log =
  meals :: "(string \<times> food_entry list) list"
  water_ml :: "rat option"

record goals =
  goal_calories :: "rat option"
  goal_protein_g :: "rat option"
  goal_carbs_g :: "rat option"
  goal_fats_g :: "rat option"
  goal_water_ml :: "rat option"

record micro_goals =
  goal_sodium_mg :: "rat option"
  goal_sugar_g :: "rat option"

record profile =
  weight_kg :: rat
  goal_weight_kg :: rat
  profile_goals :: goals

record fasting =
  active :: bool
  start_time :: "rat option"
  duration_hours :: rat

record streaks =
  calorie_goal :: "int option"
  water_goal :: "int option"
  last_checked_date :: "date option"

record tracker_data =
  data_profile :: profile
  micronutrient_goals :: micro_goals
  daily_logs :: "(date \<times> daily_log) list"
  weight_logs :: "(date \<times> rat) list"
  data_fasting :: fasting
  data_streaks :: streaks

section \<open>Python primitives\<close>

text \<open>\<^verbatim>\<open>d.get(key, default)\<close> on an optional field.\<close>

definition dict_get :: "'a option \<Rightarrow> 'a \<Rightarrow> 'a" where
  "dict_get v d = (case v of None \<Rightarrow> d | Some x \<Rightarrow> x)"

text \<open>The builtin \<^verbatim>\<open>sum\<close>: a left fold from 0.\<close>

definition py_sum :: "rat list \<Rightarrow> rat" where
  "py_sum xs = foldl (+) 0 xs"

text \<open>True division raises on a zero divisor.\<close>

definition py_div :: "rat \<Rightarrow> rat \<Rightarrow> py_error + rat" where
  "py_div a b = (if b = 0 then Inl ZeroDivisionError else Inr (a / b))"

text \<open>
  \<^verbatim>\<open>x or d\<close> where \<open>x\<close> is read with \<^verbatim>\<open>.get\<close> and \<open>d\<close> is a number: \<open>None\<close> and 0
  are falsy, so \<open>d\<close> is the result for both.
\<close>

definition py_or :: "rat option \<Rightarrow> rat \<Rightarrow> rat" where
  "py_or v d = (case v of None \<Rightarrow> d | Some x \<Rightarrow> if x = 0 then d else x)"


section \<open>Aggregation of one day (\<^verbatim>\<open>build_dashboard_panel\<close>)\<close>

text \<open>
  \<^verbatim>\<open>all_food = [item for meal_entries in log['meals'].values() for item in meal_entries]\<close>
\<close>

definition all_food :: "daily_log \<Rightarrow> food_entry list" where
  "all_food lg = concat (map snd (meals lg))"

text \<open>\<^verbatim>\<open>f.get('micros', {}).get(key, 0)\<close>\<close>

definition micro_get :: "store \<Rightarrow> food_entry \<Rightarrow> string \<Rightarrow> rat" where
  "micro_get st f k =
     (case micros f of None \<Rightarrow> 0 | Some a \<Rightarrow> dict_get (map_of (st a) k) 0)"

record totals =
  tot_calories :: rat
  tot_protein :: rat
  tot_carbs :: rat
  tot_fats :: rat
  tot_water :: rat
  tot_sodium :: rat
  tot_sugar :: rat

definition day_totals :: "store \<Rightarrow> daily_log \<Rightarrow> totals" where
  "day_totals st lg =
     (let fs = all_food lg in
      \<lparr> tot_calories = py_sum (map (\<lambda>f. dict_get (calories f) 0) fs),
        tot_protein = py_sum (map (\<lambda>f. dict_get (protein_g f) 0) fs),
        tot_carbs = py_sum (map (\<lambda>f. dict_get (carbs_g f) 0) fs),
        tot_fats = py_sum (map (\<lambda>f. dict_get (fats_g f) 0) fs),
        tot_water = dict_get (water_ml lg) 0,
        tot_sodium = py_sum (map (\<lambda>f. micro_get st f ''sodium_mg'') fs),
        tot_sugar = py_sum (map (\<lambda>f. micro_get st f ''sugar_g'') fs) \<rparr>)"

text \<open>All food entries of a daily log, over all its meal buckets, without order.\<close>

definition entries_of :: "daily_log \<Rightarrow> food_entry multiset" where
  "entries_of lg = (\<Sum>b\<in>#mset (meals lg). mset (snd b))"

section \<open>Scaling a food entry (\<^verbatim>\<open>scale_food_entry\<close>)\<close>

text \<open>
  \<^verbatim>\<open>if key in scaled_entry: scaled_entry[key] = (scaled_entry.get(key) or 0) * scale\<close>
\<close>

definition scale_field :: "rat \<Rightarrow> rat option \<Rightarrow> rat option" where
  "scale_field scale v = (case v of None \<Rightarrow> None | Some x \<Rightarrow> Some (py_or (Some x) 0 * scale))"

text \<open>
  The loop over the keys of the micros dictionary, assigning each key in place:
  \<^verbatim>\<open>for micro_key in m: m[micro_key] = (m.get(micro_key) or 0) * scale\<close>
\<close>

definition scale_micros :: "rat \<Rightarrow> micros_dict \<Rightarrow> micros_dict" where
  "scale_micros scale m =
     fold (\<lambda>micro_key m'. AList.update micro_key (py_or (map_of m' micro_key) 0 * scale) m')
       (map fst m) m"

text \<open>
  \<open>answer\<close> is what the user types at the prompt for the grams (\<open>None\<close>: empty input,
  the prompt returns its default). The copy \<^verbatim>\<open>scaled_entry = food_entry.copy()\<close> is
  shallow: the new entry has its own top-level keys and the micros dictionary of the
  source, which the loop then assigns in the store. The result is \<open>None\<close> where the source
  returns \<^verbatim>\<open>None\<close>.
\<close>

definition scale_food_entry ::
  "store \<Rightarrow> food_entry \<Rightarrow> rat option \<Rightarrow> py_error + (food_entry option \<times> store)" where
  "scale_food_entry st food_entry answer =
     (let grams_in = dict_get answer
            (py_or (serving_size_g food_entry) (py_or (grams food_entry) 100));
          base_grams = py_or (serving_size_g food_entry) (py_or (grams food_entry) 100)
      in if base_grams = 0 then Inr (None, st)
         else case py_div grams_in base_grams of
           Inl e \<Rightarrow> Inl e
         | Inr scale \<Rightarrow>
             let scaled_entry = food_entry
                   \<lparr> grams := Some grams_in,
                     calories := scale_field scale (calories food_entry),
                     protein_g := scale_field scale (protein_g food_entry),
                     carbs_g := scale_field scale (carbs_g food_entry),
                     fats_g := scale_field scale (fats_g food_entry) \<rparr>
             in (case micros scaled_entry of
                   None \<Rightarrow> Inr (Some scaled_entry, st)
                 | Some a \<Rightarrow>
                     if st a = [] then Inr (Some scaled_entry, st)
                     else Inr (Some scaled_entry, st(a := scale_micros scale (st a)))))"

section \<open>Dashboard: goal progress and fasting (\<^verbatim>\<open>build_dashboard_panel\<close>)\<close>

text \<open>\<^verbatim>\<open>progress = min(current / goal, 1.0) if goal > 0 else 0\<close>\<close>

definition metric_progress :: "rat \<Rightarrow> rat \<Rightarrow> py_error + rat" where
  "metric_progress current goal =
     (if goal > 0 then (case py_div current goal of Inl e \<Rightarrow> Inl e | Inr q \<Rightarrow> Inr (min q 1))
      else Inr 0)"

text \<open>The rows of the summary table: current value and goal, with the defaults of the source.\<close>

definition metrics :: "totals \<Rightarrow> goals \<Rightarrow> micro_goals \<Rightarrow> (rat \<times> rat) list" where
  "metrics t g mg =
     [(tot_calories t, dict_get (goal_calories g) 2000),
      (tot_protein t, dict_get (goal_protein_g g) 100),
      (tot_carbs t, dict_get (goal_carbs_g g) 200),
      (tot_fats t, dict_get (goal_fats_g g) 70),
      (tot_water t, dict_get (goal_water_ml g) 2500),
      (tot_sodium t, dict_get (goal_sodium_mg mg) 2300),
      (tot_sugar t, dict_get (goal_sugar_g mg) 30)]"

text \<open>The loop over the metrics stops at the first exception.\<close>

fun progress_bars :: "(rat \<times> rat) list \<Rightarrow> py_error + rat list" where
  "progress_bars [] = Inr []"
| "progress_bars ((current, goal) # ms) =
     (case metric_progress current goal of
        Inl e \<Rightarrow> Inl e
      | Inr p \<Rightarrow> (case progress_bars ms of Inl e \<Rightarrow> Inl e | Inr ps \<Rightarrow> Inr (p # ps)))"

record fasting_view =
  progress :: rat
  elapsed_sec :: rat
  remaining_sec :: rat
  elapsed_h :: int
  elapsed_m :: int
  rem_h :: int
  rem_m :: int

text \<open>
  The fasting panel at the instant \<open>now_ts\<close>; \<open>None\<close> is the text "No active fast."
  \<^verbatim>\<open>divmod(x, 3600)\<close> is the floor quotient and its remainder; the minutes shown are
  the remainder over 60, truncated by \<^verbatim>\<open>int\<close> (a floor, the remainder being
  non-negative).
\<close>

definition fasting_panel :: "rat \<Rightarrow> fasting \<Rightarrow> py_error + fasting_view option" where
  "fasting_panel now_ts fasting_data =
     (case (if active fasting_data then start_time fasting_data else None) of
        None \<Rightarrow> Inr None
      | Some start_ts \<Rightarrow>
          let duration_sec = duration_hours fasting_data * 3600;
              elapsed = now_ts - start_ts
          in (case py_div elapsed duration_sec of
               Inl e \<Rightarrow> Inl e
             | Inr q \<Rightarrow>
                 let remaining = max 0 (duration_sec - elapsed)
                 in Inr (Some \<lparr> progress = min q 1,
                      elapsed_sec = elapsed,
                      remaining_sec = remaining,
                      elapsed_h = \<lfloor>elapsed / 3600\<rfloor>,
                      elapsed_m = \<lfloor>(elapsed - 3600 * of_int \<lfloor>elapsed / 3600\<rfloor>) / 60\<rfloor>,
                      rem_h = \<lfloor>remaining / 3600\<rfloor>,
                      rem_m = \<lfloor>(remaining - 3600 * of_int \<lfloor>remaining / 3600\<rfloor>) / 60\<rfloor> \<rparr>)))"

record dashboard =
  dash_totals :: totals
  dash_progress :: "rat list"
  dash_fasting :: "fasting_view option"

text \<open>
  The computed content of the dashboard for the log \<open>lg\<close> of the day shown (the log
  \<^verbatim>\<open>get_log_for_date\<close> returns); the layout and the tables of entries are left out.
\<close>

definition build_dashboard_panel ::
  "store \<Rightarrow> rat \<Rightarrow> tracker_data \<Rightarrow> daily_log \<Rightarrow> py_error + dashboard" where
  "build_dashboard_panel st now_ts d lg =
     (let t = day_totals st lg
      in case progress_bars (metrics t (profile_goals (data_profile d)) (micronutrient_goals d)) of
           Inl e \<Rightarrow> Inl e
         | Inr ps \<Rightarrow>
             (case fasting_panel now_ts (data_fasting d) of
                Inl e \<Rightarrow> Inl e
              | Inr fv \<Rightarrow> Inr \<lparr> dash_totals = t, dash_progress = ps, dash_fasting = fv \<rparr>))"

section \<open>Starting and ending a fast (\<^verbatim>\<open>manage_fasting\<close>)\<close>

text \<open>
  \<open>end_it\<close> is the answer to "End it?"; \<open>answer\<close> is the integer typed for the duration
  (\<open>None\<close>: empty input, the prompt returns the stored duration). The prompt accepts
  every integer.
\<close>

definition manage_fasting :: "rat \<Rightarrow> bool \<Rightarrow> int option \<Rightarrow> fasting \<Rightarrow> fasting" where
  "manage_fasting now_ts end_it answer fasting_data =
     (if active fasting_data then
        (if end_it then fasting_data\<lparr>active := False\<rparr> else fasting_data)
      else
        fasting_data\<lparr> active := True, start_time := Some now_ts,
          duration_hours := (case answer of None \<Rightarrow> duration_hours fasting_data
                             | Some n \<Rightarrow> of_int n) \<rparr>)"

section \<open>Streaks (\<^verbatim>\<open>update_streaks\<close>)\<close>

text \<open>
  \<open>today\<close> is \<^verbatim>\<open>datetime.date.today()\<close>. The function assigns the streaks dictionary in
  place and touches nothing else of the document.
\<close>

definition update_streaks :: "date \<Rightarrow> tracker_data \<Rightarrow> tracker_data" where
  "update_streaks today d =
     (let s = data_streaks d
      in if last_checked_date s = Some today then d
         else
           let yesterday = today - 1;
               s1 = (if last_checked_date s \<noteq> Some yesterday
                     then s\<lparr>calorie_goal := Some 0, water_goal := Some 0\<rparr> else s);
               s2 = (case map_of (daily_logs d) yesterday of
                       None \<Rightarrow> s1
                     | Some yesterday_log \<Rightarrow>
                         let g = profile_goals (data_profile d);
                             total_calories =
                               py_sum (map (\<lambda>f. dict_get (calories f) 0) (all_food yesterday_log));
                             s' = (if total_calories > 0
                                      \<and> \<bar>total_calories - dict_get (goal_calories g) 0\<bar> \<le> 100
                                   then s1\<lparr>calorie_goal := Some (dict_get (calorie_goal s1) 0 + 1)\<rparr>
                                   else s1\<lparr>calorie_goal := Some 0\<rparr>)
                         in if dict_get (water_ml yesterday_log) 0 \<ge> dict_get (goal_water_ml g) 2500
                            then s'\<lparr>water_goal := Some (dict_get (water_goal s') 0 + 1)\<rparr>
                            else s'\<lparr>water_goal := Some 0\<rparr>)
           in d\<lparr>data_streaks := s2\<lparr>last_checked_date := Some today\<rparr>\<rparr>)"

section \<open>Summary report (\<^verbatim>\<open>view_summary_reports\<close>)\<close>










section \<open>Example documents\<close>

text \<open>
  An entry from the food search (grams only, its own micros dictionary at address 0), an
  entry logged from a custom food (it keeps the serving size of the custom food beside
  the grams logged; its micros dictionary, at address 1, is empty), and an entry
  without micros.
\<close>

definition apple :: food_entry where
  "apple = \<lparr> name = ''Apple'', serving_size_g = None, grams = Some 100, calories = Some 52,
     protein_g = Some (3 / 10), carbs_g = Some 14, fats_g = Some (1 / 5), micros = Some 0 \<rparr>"

definition oats :: food_entry where
  "oats = \<lparr> name = ''Oats'', serving_size_g = Some 100, grams = Some 200, calories = Some 760,
     protein_g = Some 26, carbs_g = Some 132, fats_g = Some 14, micros = Some 1 \<rparr>"

definition pasta :: food_entry where
  "pasta = \<lparr> name = ''Pasta'', serving_size_g = None, grams = Some 400, calories = Some 1138,
     protein_g = Some 40, carbs_g = Some 220, fats_g = Some 8, micros = None \<rparr>"

definition ex_store :: store where
  "ex_store = (\<lambda>a. [])(0 := [(''sodium_mg'', 1), (''sugar_g'', 10), (''fiber_g'', 12 / 5)])"

text \<open>A day of 1950 kcal, the same day with buckets and entries reordered, a day of 500 kcal.\<close>

definition ex_log :: daily_log where
  "ex_log = \<lparr> meals = [(''Breakfast'', [apple]), (''Lunch'', [pasta, oats]), (''Dinner'', []),
       (''Snacks'', [])], water_ml = Some 2600 \<rparr>"


definition ex_log_500 :: daily_log where
  "ex_log_500 = \<lparr> meals = [(''Breakfast'', []), (''Lunch'', []), (''Dinner'', []),
       (''Snacks'', [apple, apple, apple\<lparr>grams := Some 762, calories := Some 396\<rparr>])],
     water_ml = Some 1000 \<rparr>"

definition ex_goals :: goals where
  "ex_goals = \<lparr> goal_calories = Some 2000, goal_protein_g = Some 100, goal_carbs_g = Some 200,
     goal_fats_g = Some 70, goal_water_ml = Some 2500 \<rparr>"

text \<open>
  A document whose streaks were last evaluated on day 99, with no daily log at all, and
  two weights logged in the week ending on day 100.
\<close>

definition ex_data :: tracker_data where
  "ex_data = \<lparr> data_profile = \<lparr> weight_kg = 80, goal_weight_kg = 75, profile_goals = ex_goals \<rparr>,
     micronutrient_goals = \<lparr> goal_sodium_mg = Some 2300, goal_sugar_g = Some 30 \<rparr>,
     daily_logs = [],
     weight_logs = [(94, 80), (100, 799 / 10)],
     data_fasting = \<lparr> active = False, start_time = None, duration_hours = 16 \<rparr>,
     data_streaks = \<lparr> calorie_goal = Some 5, water_goal = Some 3, last_checked_date = Some 99 \<rparr> \<rparr>"


section \<open>Properties of the primitives\<close>

lemma dict_get_simps [simp]: "dict_get (Some x) dflt = x" "dict_get None dflt = dflt"
  by (simp_all add: dict_get_def)

lemma py_sum_sum_list: "py_sum xs = sum_list xs"
proof -
  have "foldl (+) a xs = a + sum_list xs" for a :: rat
    by (induction xs arbitrary: a) (simp_all add: add.assoc)
  from this [of 0] show ?thesis by (simp add: py_sum_def)
qed

lemma mset_concat_buckets:
  "mset (concat (map snd ms)) = (\<Sum>b\<in>#mset ms. mset (snd b))"
  by (induction ms) simp_all

lemma mset_all_food: "mset (all_food lg) = entries_of lg"
  by (simp only: all_food_def entries_of_def mset_concat_buckets)

lemma sum_list_map_mset: "sum_list (map g xs) = (\<Sum>x\<in>#mset xs. g x)"
  for g :: "'a \<Rightarrow> rat"
  by (induction xs) simp_all

lemma py_sum_entries:
  "py_sum (map g (all_food lg)) = (\<Sum>f\<in>#entries_of lg. g f)"
  by (simp only: py_sum_sum_list sum_list_map_mset mset_all_food)






section \<open>Day totals\<close>



section \<open>Streaks\<close>

lemma update_streaks_last_checked:
  "last_checked_date (data_streaks (update_streaks today d)) = Some today"
  by (simp add: update_streaks_def Let_def)

lemma total_calories_entries:
  "py_sum (map (\<lambda>f. dict_get (calories f) 0) (all_food lg))
     = (\<Sum>f\<in>#entries_of lg. dict_get (calories f) 0)"
  by (rule py_sum_entries)

text \<open>
  C3. When the streaks were not yet evaluated today and a log exists for yesterday, let
  \<open>c0\<close> and \<open>w0\<close> be the counters after the gap reset (the stored counters when the last
  evaluation was yesterday, 0 otherwise). The calorie streak becomes \<open>c0 + 1\<close> when
  yesterday's total calories are positive and within 100 of the calorie goal, and 0
  otherwise; the water streak becomes \<open>w0 + 1\<close> when yesterday's water reaches the water
  goal, and 0 otherwise. For counters that are not negative this is an equivalence: the
  counter is \<open>c0 + 1\<close> exactly when the condition holds.
\<close>

theorem update_streaks_evaluates_yesterday:
  assumes "last_checked_date (data_streaks d) \<noteq> Some today"
    and "map_of (daily_logs d) (today - 1) = Some yesterday_log"
  shows "let s = data_streaks d;
             g = profile_goals (data_profile d);
             checked_yesterday = (last_checked_date s = Some (today - 1));
             c0 = (if checked_yesterday then dict_get (calorie_goal s) 0 else 0);
             w0 = (if checked_yesterday then dict_get (water_goal s) 0 else 0);
             total_calories = (\<Sum>f\<in>#entries_of yesterday_log. dict_get (calories f) 0);
             calories_met = (total_calories > 0
                \<and> \<bar>total_calories - dict_get (goal_calories g) 0\<bar> \<le> 100);
             water_met = (dict_get (water_ml yesterday_log) 0 \<ge> dict_get (goal_water_ml g) 2500);
             s' = data_streaks (update_streaks today d)
         in calorie_goal s' = Some (if calories_met then c0 + 1 else 0)
            \<and> water_goal s' = Some (if water_met then w0 + 1 else 0)
            \<and> (0 \<le> c0 \<longrightarrow> (calorie_goal s' = Some (c0 + 1) \<longleftrightarrow> calories_met))
            \<and> (0 \<le> w0 \<longrightarrow> (water_goal s' = Some (w0 + 1) \<longleftrightarrow> water_met))
            \<and> last_checked_date s' = Some today"
  using assms
  by (auto simp add: update_streaks_def Let_def total_calories_entries)

text \<open>
  The examples of the specification: with a goal of 2000 kcal, a day of 1950 kcal (and
  2600 ml of water against 2500) advances both streaks from 5 and 3 to 6 and 4; a day
  of 500 kcal (and 1000 ml) sets both to 0.
\<close>

theorem update_streaks_evaluates_yesterday_witness:
  "data_streaks (update_streaks 100 (ex_data\<lparr>daily_logs := [(99, ex_log)]\<rparr>))
     = \<lparr> calorie_goal = Some 6, water_goal = Some 4, last_checked_date = Some 100 \<rparr>
   \<and> data_streaks (update_streaks 100 (ex_data\<lparr>daily_logs := [(99, ex_log_500)]\<rparr>))
     = \<lparr> calorie_goal = Some 0, water_goal = Some 0, last_checked_date = Some 100 \<rparr>"
proof -
  let ?d = "ex_data\<lparr>daily_logs := [(99, ex_log)]\<rparr>"
  let ?e = "ex_data\<lparr>daily_logs := [(99, ex_log_500)]\<rparr>"
  have h1: "last_checked_date (data_streaks ?d) \<noteq> Some 100"
    and h1': "last_checked_date (data_streaks ?e) \<noteq> Some 100"
    by (simp_all add: ex_data_def)
  have h2: "map_of (daily_logs ?d) (100 - 1) = Some ex_log"
    and h2': "map_of (daily_logs ?e) (100 - 1) = Some ex_log_500"
    by simp_all
  have t1: "(\<Sum>f\<in>#entries_of ex_log. dict_get (calories f) 0) = 1950"
    by (simp add: entries_of_def ex_log_def apple_def pasta_def oats_def)
  have t2: "(\<Sum>f\<in>#entries_of ex_log_500. dict_get (calories f) 0) = 500"
    by (simp add: entries_of_def ex_log_500_def apple_def)
  have w1: "water_ml ex_log = Some 2600" and w2: "water_ml ex_log_500 = Some 1000"
    by (simp_all add: ex_log_def ex_log_500_def)
  have a: "calorie_goal (data_streaks (update_streaks 100 ?d)) = Some 6
      \<and> water_goal (data_streaks (update_streaks 100 ?d)) = Some 4
      \<and> last_checked_date (data_streaks (update_streaks 100 ?d)) = Some 100"
    using update_streaks_evaluates_yesterday [OF h1 h2]
    by (simp add: Let_def t1 w1 ex_data_def ex_goals_def)
  have b: "calorie_goal (data_streaks (update_streaks 100 ?e)) = Some 0
      \<and> water_goal (data_streaks (update_streaks 100 ?e)) = Some 0
      \<and> last_checked_date (data_streaks (update_streaks 100 ?e)) = Some 100"
    using update_streaks_evaluates_yesterday [OF h1' h2']
    by (simp add: Let_def t2 w2 ex_data_def ex_goals_def)
  show ?thesis
    using a b by (simp add: streaks.equality)
qed


text \<open>
  When the last evaluation was neither today nor yesterday, the gap check has reset the
  counters, and without a log for yesterday both are 0.
\<close>

lemma update_streaks_gap_without_log:
  assumes "last_checked_date (data_streaks d) \<noteq> Some today"
    and "last_checked_date (data_streaks d) \<noteq> Some (today - 1)"
    and "map_of (daily_logs d) (today - 1) = None"
  shows "calorie_goal (data_streaks (update_streaks today d)) = Some 0
    \<and> water_goal (data_streaks (update_streaks today d)) = Some 0"
  using assms by (simp add: update_streaks_def Let_def)

text \<open>
  C5. The evaluation ends by recording today as the day of the last evaluation, and it
  does nothing when that day is already today. So running it twice on the same day
  gives the same document as running it once, and a run on a document already
  evaluated today returns the document unchanged (the streaks and everything else).
\<close>

theorem update_streaks_idempotent:
  "update_streaks today (update_streaks today d) = update_streaks today d
   \<and> (last_checked_date (data_streaks d) = Some today \<longrightarrow> update_streaks today d = d)"
proof
  have "last_checked_date (data_streaks (update_streaks today d)) = Some today"
    by (rule update_streaks_last_checked)
  then show "update_streaks today (update_streaks today d) = update_streaks today d"
    by (subst update_streaks_def) (simp add: Let_def)
  show "last_checked_date (data_streaks d) = Some today \<longrightarrow> update_streaks today d = d"
    by (simp add: update_streaks_def Let_def)
qed

theorem update_streaks_idempotent_witness:
  "last_checked_date (data_streaks (update_streaks 100 ex_data)) = Some 100
   \<and> update_streaks 100 (update_streaks 100 ex_data) = update_streaks 100 ex_data
   \<and> data_streaks (update_streaks 100 (update_streaks 100 ex_data))
       = \<lparr> calorie_goal = Some 5, water_goal = Some 3, last_checked_date = Some 100 \<rparr>"
proof -
  have h: "last_checked_date (data_streaks (update_streaks 100 ex_data)) = Some 100"
    by (simp add: update_streaks_def Let_def ex_data_def)
  have v: "data_streaks (update_streaks 100 ex_data)
       = \<lparr> calorie_goal = Some 5, water_goal = Some 3, last_checked_date = Some 100 \<rparr>"
    by (simp add: update_streaks_def Let_def ex_data_def)
  from update_streaks_idempotent [of 100 "update_streaks 100 ex_data"] h v show ?thesis
    by simp
qed

section \<open>Fasting and the guarded divisions\<close>

text \<open>
  C6. While a fast is active with start time \<open>T\<close> and a duration other than 0 hours, the
  fasting panel at the instant \<open>now_ts\<close> has elapsed = \<open>now_ts - T\<close>, remaining = max(0,
  duration in seconds - elapsed) and progress = min(elapsed / duration, 1). For a fast
  of 16 hours started at \<open>T\<close>, the panel at \<open>T\<close> + 10 h shows 10 h elapsed, 6 h remaining
  and progress 0.625. (A stored duration of 0 hours is the subject of C10.)
\<close>

theorem fasting_panel_while_active:
  "(active fd \<and> start_time fd = Some T \<and> duration_hours fd \<noteq> 0 \<longrightarrow>
      (\<exists>v. fasting_panel now_ts fd = Inr (Some v)
         \<and> elapsed_sec v = now_ts - T
         \<and> remaining_sec v = max 0 (duration_hours fd * 3600 - (now_ts - T))
         \<and> progress v = min ((now_ts - T) / (duration_hours fd * 3600)) 1))
   \<and> fasting_panel (T + 10 * 3600) \<lparr> active = True, start_time = Some T, duration_hours = 16 \<rparr>
       = Inr (Some \<lparr> progress = 5 / 8, elapsed_sec = 10 * 3600, remaining_sec = 6 * 3600,
                elapsed_h = 10, elapsed_m = 0, rem_h = 6, rem_m = 0 \<rparr>)"
  by (simp add: fasting_panel_def py_div_def Let_def)

theorem fasting_panel_while_active_witness:
  "\<exists>v. fasting_panel 5000 \<lparr> active = True, start_time = Some 1400, duration_hours = 18 \<rparr>
        = Inr (Some v)
     \<and> elapsed_sec v = 3600 \<and> remaining_sec v = 17 * 3600 \<and> progress v = 1 / 18"
  using fasting_panel_while_active
    [of "\<lparr> active = True, start_time = Some 1400, duration_hours = 18 \<rparr>" 1400 5000]
  by simp

text \<open>
  The guarded divisions: goal progress and scaling never raise, and scaling always
  returns an entry (the base grams are never 0, since a zero or missing serving size and
  grams fall through to 100).
\<close>

lemma metric_progress_total: "\<exists>p. metric_progress current goal = Inr p"
  by (simp add: metric_progress_def py_div_def)

lemma progress_bars_total: "\<exists>ps. progress_bars ms = Inr ps"
proof (induction ms)
  case Nil
  show ?case by simp
next
  case (Cons m ms)
  obtain current goal where m: "m = (current, goal)" by (cases m)
  obtain p where p: "metric_progress current goal = Inr p"
    using metric_progress_total by blast
  from Cons obtain ps where ps: "progress_bars ms = Inr ps" by blast
  show ?case by (simp add: m p ps)
qed

lemma scale_food_entry_returns_entry:
  "\<exists>e st'. scale_food_entry st food_entry answer = Inr (Some e, st')"
  by (simp add: scale_food_entry_def py_div_def py_or_def Let_def split: option.split)

text \<open>
  C10. The division of the fasting panel is not guarded. Starting a fast and typing 0 for
  the duration stores an active fast of 0 hours; from then on the fasting panel, and with
  it the whole dashboard, raises ZeroDivisionError at every instant, whatever the rest
  of the document.
\<close>

theorem fasting_duration_zero_raises:
  "manage_fasting T end_it (Some 0) \<lparr> active = False, start_time = None, duration_hours = 16 \<rparr>
     = \<lparr> active = True, start_time = Some T, duration_hours = 0 \<rparr>
   \<and> fasting_panel now_ts \<lparr> active = True, start_time = Some T, duration_hours = 0 \<rparr>
     = Inl ZeroDivisionError
   \<and> build_dashboard_panel st now_ts
       (d\<lparr>data_fasting := \<lparr> active = True, start_time = Some T, duration_hours = 0 \<rparr>\<rparr>) lg
     = Inl ZeroDivisionError"
proof -
  obtain ps where "progress_bars (metrics (day_totals st lg) (profile_goals (data_profile d))
      (micronutrient_goals d)) = Inr ps"
    using progress_bars_total by blast
  then show ?thesis
    by (simp add: manage_fasting_def fasting_panel_def build_dashboard_panel_def py_div_def Let_def)
qed

section \<open>Scaling\<close>

text \<open>
  With distinct keys, as in a dictionary, the loop over the micros multiplies every
  value by the factor.
\<close>

lemma py_or_Some_0 [simp]: "py_or (Some x) 0 = x"
  by (simp add: py_or_def)

lemma update_past_prefix:
  "k \<notin> fst ` set xs \<Longrightarrow> AList.update k v (xs @ ys) = xs @ AList.update k v ys"
  by (induction xs) auto

lemma map_of_past_prefix:
  "k \<notin> fst ` set xs \<Longrightarrow> map_of (xs @ ys) k = map_of ys k"
  by (induction xs) auto

lemma scale_micros_fold:
  "distinct (map fst (xs @ ys)) \<Longrightarrow>
   fold (\<lambda>micro_key m'. AList.update micro_key (py_or (map_of m' micro_key) 0 * c) m')
     (map fst ys) (xs @ ys) = xs @ map (\<lambda>(k, v). (k, v * c)) ys"
proof (induction ys arbitrary: xs)
  case Nil
  show ?case by simp
next
  case (Cons e ys)
  obtain k v where e: "e = (k, v)" by (cases e)
  from Cons.prems have k: "k \<notin> fst ` set xs" by (auto simp add: e)
  from Cons.prems have d: "distinct (map fst ((xs @ [(k, v * c)]) @ ys))" by (auto simp add: e)
  have m: "map_of (xs @ (k, v) # ys) k = Some v"
    by (simp only: map_of_past_prefix [OF k]) simp
  have "AList.update k (py_or (map_of (xs @ (k, v) # ys) k) 0 * c) (xs @ (k, v) # ys)
      = (xs @ [(k, v * c)]) @ ys"
    by (simp only: m update_past_prefix [OF k]) simp
  with Cons.IH [OF d] show ?case
    by (simp only: e list.map fst_conv fold_simps) simp
qed

lemma scale_micros_map:
  "distinct (map fst m) \<Longrightarrow> scale_micros c m = map (\<lambda>(k, v). (k, v * c)) m"
  using scale_micros_fold [of "[]" m c] by (simp add: scale_micros_def)

lemma scale_field_twice:
  "a \<noteq> 0 \<Longrightarrow> b \<noteq> 0 \<Longrightarrow> scale_field (a / b) (scale_field (b / a) v) = v"
  by (cases v) (simp_all add: scale_field_def)

lemma scale_micros_twice:
  assumes "distinct (map fst m)" "a \<noteq> 0" "b \<noteq> 0"
  shows "scale_micros (a / b) (scale_micros (b / a) m) = m"
proof -
  have d: "distinct (map fst (map (\<lambda>(k, v). (k, v * (b / a))) m))"
    using assms(1) by (simp add: o_def case_prod_unfold)
  have "map (\<lambda>(k, v). (k, v * (a / b))) (map (\<lambda>(k, v). (k, v * (b / a))) m) = m"
    using assms(2,3) by (induction m) auto
  then show ?thesis
    by (simp only: scale_micros_map [OF assms(1)] scale_micros_map [OF d])
qed

text \<open>
  An entry without a serving size, as the food search produces it, scaled from its grams
  \<open>g1\<close> to \<open>g2\<close> and back, is the entry it was, and so is the store.
\<close>

lemma scale_food_entry_round_trip_grams_only:
  assumes "serving_size_g f = None" "grams f = Some g1" "g1 \<noteq> 0" "g2 \<noteq> 0"
    and "\<forall>a. micros f = Some a \<longrightarrow> distinct (map fst (st a))"
  shows "\<exists>e st'. scale_food_entry st f (Some g2) = Inr (Some e, st')
           \<and> grams e = Some g2
           \<and> scale_food_entry st' e (Some g1) = Inr (Some f, st)"
proof (cases "micros f")
  case None
  with assms(1-4) show ?thesis
    by (simp add: scale_food_entry_def py_or_def py_div_def Let_def scale_field_twice)
next
  case (Some a)
  with assms(5) have d: "distinct (map fst (st a))" by simp
  show ?thesis
  proof (cases "st a = []")
    case True
    with Some assms(1-4) show ?thesis
      by (simp add: scale_food_entry_def py_or_def py_div_def Let_def scale_field_twice)
  next
    case False
    then have ne: "scale_micros (g2 / g1) (st a) \<noteq> []"
      by (simp add: scale_micros_map [OF d])
    have rt: "scale_micros (g1 / g2) (scale_micros (g2 / g1) (st a)) = st a"
      using d assms(3,4) by (rule scale_micros_twice)
    from Some False ne assms(1-4) show ?thesis
      by (simp add: scale_food_entry_def py_or_def py_div_def Let_def scale_field_twice rt)
  qed
qed

text \<open>
  C8. The entry \<open>oats\<close> was logged from a custom food: 200 g, 760 kcal, and the serving
  size 100 of the custom food, which the scaled copy keeps. Scaling it to 100 g takes the
  serving size as base, so the factor is 1 and the 760 kcal stay; scaling the result back
  to 200 g doubles them. The round trip from 200 g to 100 g and back gives 1520 kcal
  for the 760 kcal of the original.
\<close>

theorem scale_food_entry_round_trip_fails:
  "scale_food_entry ex_store oats (Some 100) = Inr (Some (oats\<lparr>grams := Some 100\<rparr>), ex_store)
   \<and> scale_food_entry ex_store (oats\<lparr>grams := Some 100\<rparr>) (Some 200)
     = Inr (Some (oats\<lparr>calories := Some 1520, protein_g := Some 52, carbs_g := Some 264,
                   fats_g := Some 28\<rparr>), ex_store)
   \<and> calories oats = Some 760 \<and> grams oats = Some 200"
  by (simp add: scale_food_entry_def scale_field_def py_or_def py_div_def Let_def oats_def
      ex_store_def)

text \<open>
  C9. Scaling the entry \<open>apple\<close> from 100 g to 200 g returns a new entry with its own grams
  and macro nutrients, and doubles the micros in the dictionary at address 0, which the
  source entry still refers to: the sodium of the source entry is 1 before and 2 after,
  and so is the sodium total of the day that holds the source entry.
\<close>

theorem scale_food_entry_changes_source_micros:
  "scale_food_entry ex_store apple (Some 200)
     = Inr (Some (apple\<lparr>grams := Some 200, calories := Some 104, protein_g := Some (3 / 5),
                   carbs_g := Some 28, fats_g := Some (2 / 5)\<rparr>),
            ex_store(0 := [(''sodium_mg'', 2), (''sugar_g'', 20), (''fiber_g'', 24 / 5)]))
   \<and> micros apple = Some 0
   \<and> micro_get ex_store apple ''sodium_mg'' = 1
   \<and> micro_get (ex_store(0 := [(''sodium_mg'', 2), (''sugar_g'', 20), (''fiber_g'', 24 / 5)]))
        apple ''sodium_mg'' = 2
   \<and> tot_sodium (day_totals ex_store ex_log) = 1
   \<and> tot_sodium (day_totals
        (ex_store(0 := [(''sodium_mg'', 2), (''sugar_g'', 20), (''fiber_g'', 24 / 5)])) ex_log) = 2"
  by (simp add: scale_food_entry_def scale_field_def scale_micros_def py_or_def py_div_def
      Let_def apple_def oats_def pasta_def ex_log_def ex_store_def micro_get_def day_totals_def
      all_food_def py_sum_def)

section \<open>Summary report\<close>
























end
